theory Spec2Isabelle
  imports Complex_Main
begin

section \<open>The authentication server of server.py\<close>

text \<open>
  The server keeps one SQLite table, \<^verbatim>\<open>user_commitments\<close>, and answers three
  requests: \<^verbatim>\<open>POST /enroll\<close>, \<^verbatim>\<open>POST /verifyCommitment\<close> and \<^verbatim>\<open>GET /\<close>.
  The table is a list of rows in rowid order, the handler is a function from the store and
  the request to the response, the store afterwards, the database functions it called and
  the lines it logged. An uncaught Python exception is an outcome of its own.
\<close>

subsection \<open>JSON values and the Python operations the handler applies to them\<close>

text \<open>
  A Python \<^verbatim>\<open>float\<close>, by what the server can tell of it. \<^verbatim>\<open>json.loads\<close> returns one for
  a number with a fraction or an exponent and for the literals \<^verbatim>\<open>NaN\<close>, \<^verbatim>\<open>Infinity\<close> and
  \<^verbatim>\<open>-Infinity\<close>, which it accepts though they are not JSON. Of a float other than NaN
  the server can tell whether it is zero (\<^verbatim>\<open>not x\<close>) and the text that SQLite makes of it
  next to a TEXT column, which is never empty: its first character and the rest
  (\<^verbatim>\<open>1.5\<close> for 1.5, \<^verbatim>\<open>Inf\<close> for Infinity).
\<close>

datatype pyfloat =
    NaN
  | Number (is_zero: bool) (text_head: char) (text_tail: string)

text \<open>
  What \<^verbatim>\<open>json.loads\<close> returns: \<^verbatim>\<open>None\<close>, a \<^verbatim>\<open>bool\<close>, an \<^verbatim>\<open>int\<close>, a \<^verbatim>\<open>float\<close>,
  a \<^verbatim>\<open>str\<close>, a \<^verbatim>\<open>list\<close> or a \<^verbatim>\<open>dict\<close>. A \<^verbatim>\<open>str\<close> is given by its UTF-8 bytes
  (\<open>JStr\<close>). A \<^verbatim>\<open>str\<close> that holds a lone surrogate, which \<^verbatim>\<open>json.loads\<close> makes of an
  escape such as \<^verbatim>\<open>\ud800\<close>, has no UTF-8 encoding and is given by its code points
  (\<open>JStr_surrogate\<close>). An object carries its members in the order of the document; a
  member whose key holds a lone surrogate is no member the handler asks for and is left
  out.
\<close>

datatype json =
    JNull
  | JBool bool
  | JInt int
  | JFloat pyfloat
  | JStr string
  | JStr_surrogate "nat list"
  | JArr "json list"
  | JObj "(string \<times> json) list"

datatype py_exception =
    TypeError
  | ValueError
  | UnicodeDecodeError
  | JSONDecodeError
  | AttributeError
  | UnicodeEncodeError
  | BindingError
  | OverflowError
  | IntegrityError

text \<open>Python's truth value of a JSON value, as \<^verbatim>\<open>not x\<close> tests it.\<close>

fun truthy :: "json \<Rightarrow> bool" where
  "truthy JNull = False"
| "truthy (JBool b) = b"
| "truthy (JInt i) = (i \<noteq> 0)"
| "truthy (JFloat NaN) = True"
| "truthy (JFloat (Number z h t)) = (\<not> z)"
| "truthy (JStr s) = (s \<noteq> [])"
| "truthy (JStr_surrogate cps) = True"
| "truthy (JArr xs) = (xs \<noteq> [])"
| "truthy (JObj kvs) = (kvs \<noteq> [])"

text \<open>
  \<^verbatim>\<open>data.get(key)\<close>: on a dict the value of the key, \<^verbatim>\<open>None\<close> when the key is absent;
  a later member of the document replaces an earlier one with the same key. Any other
  JSON value has no attribute \<^verbatim>\<open>get\<close>, and the call raises \<^verbatim>\<open>AttributeError\<close>.
\<close>

fun dict_get :: "json \<Rightarrow> string \<Rightarrow> py_exception + json" where
  "dict_get (JObj kvs) k = Inr (case map_of (rev kvs) k of None \<Rightarrow> JNull | Some v \<Rightarrow> v)"
| "dict_get _ k = Inl AttributeError"

subsection \<open>Values bound to a statement\<close>

text \<open>Decimal text of an integer, as SQLite renders an INTEGER in a TEXT context.\<close>

definition digit_char :: "nat \<Rightarrow> char" where
  "digit_char d = char_of (48 + d)"

fun show_nat :: "nat \<Rightarrow> string" where
  "show_nat n = (if n < 10 then [digit_char n] else show_nat (n div 10) @ [digit_char (n mod 10)])"

declare show_nat.simps [simp del]

definition show_int :: "int \<Rightarrow> string" where
  "show_int i = (if i < 0 then CHR ''-'' # show_nat (nat (- i)) else show_nat (nat i))"

text \<open>
  A Python value bound to a \<^verbatim>\<open>?\<close> that stands next to a column declared TEXT, as the
  column sees it: \<^verbatim>\<open>None\<close> is NULL, a \<^verbatim>\<open>str\<close> is itself, an \<^verbatim>\<open>int\<close> (a \<^verbatim>\<open>bool\<close>
  is one) is bound as a 64-bit INTEGER and converted to its decimal text by the column's
  affinity, a \<^verbatim>\<open>float\<close> is bound as a REAL and converted to its text likewise, but NaN
  is bound as NULL. The \<^verbatim>\<open>sqlite3\<close> module raises on an \<^verbatim>\<open>int\<close> outside 64 bits, on a
  \<^verbatim>\<open>str\<close> that has no UTF-8 encoding, and on a \<^verbatim>\<open>list\<close> or \<^verbatim>\<open>dict\<close>, which it
  cannot bind.
\<close>

fun bind_text :: "json \<Rightarrow> py_exception + string option" where
  "bind_text JNull = Inr None"
| "bind_text (JBool b) = Inr (Some (if b then ''1'' else ''0''))"
| "bind_text (JInt i) =
     (if - (2 ^ 63) \<le> i \<and> i < 2 ^ 63 then Inr (Some (show_int i)) else Inl OverflowError)"
| "bind_text (JFloat NaN) = Inr None"
| "bind_text (JFloat (Number z h t)) = Inr (Some (h # t))"
| "bind_text (JStr s) = Inr (Some s)"
| "bind_text (JStr_surrogate cps) = Inl UnicodeEncodeError"
| "bind_text (JArr xs) = Inl BindingError"
| "bind_text (JObj kvs) = Inl BindingError"

subsection \<open>The table and the three database functions\<close>

text \<open>
  \<^verbatim>\<open>CREATE TABLE user_commitments (id INTEGER PRIMARY KEY, user_name TEXT NOT NULL,
  crypto_commitment TEXT NOT NULL)\<close>. The table declares no uniqueness of \<^verbatim>\<open>user_name\<close>.
\<close>

record row =
  row_id :: int
  user_name :: string
  crypto_commitment :: string

type_synonym store = "row list"

text \<open>
  \<^verbatim>\<open>init_db\<close> creates the table if the file has none, and then it is empty; a table
  that exists is kept as it is.
\<close>

definition init_db :: "store option \<Rightarrow> store" where
  "init_db file = (case file of None \<Rightarrow> [] | Some tbl \<Rightarrow> tbl)"

text \<open>The rows a \<^verbatim>\<open>WHERE user_name = ?\<close> selects, and \<^verbatim>\<open>fetchone\<close> on them.\<close>

definition where_user_name :: "store \<Rightarrow> string option \<Rightarrow> row list" where
  "where_user_name tbl p =
     (case p of None \<Rightarrow> [] | Some t \<Rightarrow> filter (\<lambda>r. user_name r = t) tbl)"

definition fetchone :: "'a list \<Rightarrow> 'a option" where
  "fetchone rows = (case rows of [] \<Rightarrow> None | r # _ \<Rightarrow> Some r)"

text \<open>
  The rowid SQLite gives a new row: 1 in an empty table, else one more than the largest
  in the table. That is so while the largest is below \<open>2 ^ 63 - 1\<close>; beyond, SQLite
  tries unused rowids at random, which this function does not follow. A table has room
  for \<open>n\<close> rows when the \<open>n\<close> next rowids are given by this rule.
\<close>

definition next_row_id :: "store \<Rightarrow> int" where
  "next_row_id tbl = (if tbl = [] then 1 else Max (set (map row_id tbl)) + 1)"


definition save_crypto_commitment :: "store \<Rightarrow> json \<Rightarrow> json \<Rightarrow> py_exception + store" where
  "save_crypto_commitment tbl u c =
     (case bind_text u of
        Inl e \<Rightarrow> Inl e
      | Inr pu \<Rightarrow>
          (case bind_text c of
             Inl e \<Rightarrow> Inl e
           | Inr pc \<Rightarrow>
               (case (pu, pc) of
                  (Some tu, Some tc) \<Rightarrow>
                    Inr (tbl @ [\<lparr>row_id = next_row_id tbl, user_name = tu, crypto_commitment = tc\<rparr>])
                | _ \<Rightarrow> Inl IntegrityError)))"

definition verify_crypto_commitment :: "store \<Rightarrow> json \<Rightarrow> py_exception + string option" where
  "verify_crypto_commitment tbl u =
     (case bind_text u of
        Inl e \<Rightarrow> Inl e
      | Inr p \<Rightarrow>
          (case fetchone (where_user_name tbl p) of
             Some r \<Rightarrow> Inr (Some (crypto_commitment r))
           | None \<Rightarrow> Inr None))"

definition user_exists :: "store \<Rightarrow> json \<Rightarrow> py_exception + bool" where
  "user_exists tbl u =
     (case bind_text u of
        Inl e \<Rightarrow> Inl e
      | Inr p \<Rightarrow> Inr (fetchone (where_user_name tbl p) \<noteq> None))"

text \<open>
  \<^verbatim>\<open>stored_crypto_commitment == crypto_commitment\<close>: the left side is \<^verbatim>\<open>None\<close> or a
  \<^verbatim>\<open>str\<close>, so Python's equality is equality of the JSON values.
\<close>

definition py_value :: "string option \<Rightarrow> json" where
  "py_value stored = (case stored of None \<Rightarrow> JNull | Some s \<Rightarrow> JStr s)"

subsection \<open>Requests, responses and what one run of the handler leaves behind\<close>

text \<open>
  A POST request is its path and what the first three lines of a branch make of the rest:
  \<^verbatim>\<open>int(self.headers['Content-Length'])\<close>, \<^verbatim>\<open>self.rfile.read(...).decode('utf-8')\<close>
  and \<^verbatim>\<open>json.loads(body)\<close>. That is the value \<^verbatim>\<open>json.loads\<close> returns, or the exception
  one of the three raises: \<^verbatim>\<open>TypeError\<close> without the header, \<^verbatim>\<open>ValueError\<close> when it is
  no number, \<^verbatim>\<open>UnicodeDecodeError\<close> when the bytes are not UTF-8, \<^verbatim>\<open>JSONDecodeError\<close>
  when the text is not well-formed JSON.
\<close>

record request =
  path :: string
  body :: "py_exception + json"

datatype payload = Json json | Raw string

record response =
  status :: nat
  content_type :: string
  content :: payload

text \<open>
  A run of the handler writes a response, or returns without writing one, or is left by
  an exception that nothing in the server catches (the connection is then closed with
  nothing written).
\<close>

datatype outcome = Responded response | NoResponse | Raised py_exception

datatype db_call =
    Call_user_exists json
  | Call_save_crypto_commitment json json
  | Call_verify_crypto_commitment json

text \<open>
  The readings that differ from run to run: the two calls of \<^verbatim>\<open>time.time()\<close> and the
  CPU and RAM percentages of \<^verbatim>\<open>psutil\<close>. They reach the log only. Python's floats
  are taken as reals here.
\<close>

record env =
  start_time :: real
  end_time :: real
  cpu_usage :: real
  ram_usage :: real

datatype log_entry = RequestTime string real | CpuUsage real | RamUsage real

record result =
  outcome :: outcome
  db :: store
  calls :: "db_call list"
  logged :: "log_entry list"

definition json_response :: "nat \<Rightarrow> string \<Rightarrow> string \<Rightarrow> response" where
  "json_response code key msg =
     \<lparr>status = code, content_type = ''application/json'', content = Json (JObj [(key, JStr msg)])\<rparr>"

text \<open>\<^verbatim>\<open>log_request_time\<close> followed by \<^verbatim>\<open>log_system_resources\<close>, the tail of \<^verbatim>\<open>do_POST\<close>.\<close>

definition request_log :: "env \<Rightarrow> string \<Rightarrow> log_entry list" where
  "request_log e url =
     [RequestTime url (end_time e - start_time e), CpuUsage (cpu_usage e), RamUsage (ram_usage e)]"

text \<open>A run left by an exception, and a run that \<^verbatim>\<open>return\<close>s after its response.\<close>

definition raised :: "py_exception \<Rightarrow> store \<Rightarrow> db_call list \<Rightarrow> result" where
  "raised x s cs = \<lparr>outcome = Raised x, db = s, calls = cs, logged = []\<rparr>"

definition returned :: "response \<Rightarrow> store \<Rightarrow> db_call list \<Rightarrow> result" where
  "returned r s cs = \<lparr>outcome = Responded r, db = s, calls = cs, logged = []\<rparr>"

subsection \<open>The handler\<close>

text \<open>The branch \<^verbatim>\<open>self.path == '/enroll'\<close> of \<^verbatim>\<open>do_POST\<close>.\<close>

definition do_POST_enroll :: "env \<Rightarrow> store \<Rightarrow> request \<Rightarrow> result" where
  "do_POST_enroll e s req =
     (case body req of
        Inl x \<Rightarrow> raised x s []
      | Inr data \<Rightarrow>
          (case dict_get data ''user_name'' of
             Inl x \<Rightarrow> raised x s []
           | Inr u \<Rightarrow>
               (case dict_get data ''crypto_commitment'' of
                  Inl x \<Rightarrow> raised x s []
                | Inr c \<Rightarrow>
                    if \<not> truthy u \<or> \<not> truthy c then
                      returned (json_response 400 ''error'' ''Missing username or crypto commitment'') s []
                    else
                      (case user_exists s u of
                         Inl x \<Rightarrow> raised x s [Call_user_exists u]
                       | Inr ex \<Rightarrow>
                           if ex then
                             returned (json_response 409 ''error'' ''User already exists'') s
                               [Call_user_exists u]
                           else
                             (case save_crypto_commitment s u c of
                                Inl x \<Rightarrow>
                                  raised x s [Call_user_exists u, Call_save_crypto_commitment u c]
                              | Inr s' \<Rightarrow>
                                  \<lparr>outcome = Responded (json_response 201 ''message''
                                     ''Crypto commitment and username saved successfully!''),
                                   db = s',
                                   calls = [Call_user_exists u, Call_save_crypto_commitment u c],
                                   logged = request_log e (path req)\<rparr>)))))"

text \<open>The branch \<^verbatim>\<open>self.path == '/verifyCommitment'\<close> of \<^verbatim>\<open>do_POST\<close>.\<close>

definition do_POST_verifyCommitment :: "env \<Rightarrow> store \<Rightarrow> request \<Rightarrow> result" where
  "do_POST_verifyCommitment e s req =
     (case body req of
        Inl x \<Rightarrow> raised x s []
      | Inr data \<Rightarrow>
          (case dict_get data ''user_name'' of
             Inl x \<Rightarrow> raised x s []
           | Inr u \<Rightarrow>
               (case dict_get data ''crypto_commitment'' of
                  Inl x \<Rightarrow> raised x s []
                | Inr c \<Rightarrow>
                    if \<not> truthy u then
                      returned (json_response 400 ''error'' ''Missing username'') s []
                    else
                      (case verify_crypto_commitment s u of
                         Inl x \<Rightarrow> raised x s [Call_verify_crypto_commitment u]
                       | Inr stored \<Rightarrow>
                           \<lparr>outcome = Responded
                              (if py_value stored = c
                               then json_response 200 ''message'' ''Login Successful''
                               else json_response 403 ''error'' ''Unauthorized''),
                            db = s,
                            calls = [Call_verify_crypto_commitment u],
                            logged = request_log e (path req)\<rparr>))))"

definition do_POST :: "env \<Rightarrow> store \<Rightarrow> request \<Rightarrow> result" where
  "do_POST e s req =
     (if path req = ''/enroll'' then do_POST_enroll e s req
      else if path req = ''/verifyCommitment'' then do_POST_verifyCommitment e s req
      else \<lparr>outcome = NoResponse, db = s, calls = [], logged = request_log e (path req)\<rparr>)"

definition do_GET :: "store \<Rightarrow> string \<Rightarrow> result" where
  "do_GET s p =
     (if p = ''/'' then
        \<lparr>outcome = Responded
           \<lparr>status = 200, content_type = ''text/html'', content = Raw ''Server is running''\<rparr>,
         db = s, calls = [], logged = []\<rparr>
      else \<lparr>outcome = NoResponse, db = s, calls = [], logged = []\<rparr>)"

subsection \<open>Requests as the client sends them\<close>

text \<open>
  The body \<^verbatim>\<open>{"user_name": u, "crypto_commitment": c}\<close> that \<^verbatim>\<open>client.py\<close> posts, and
  the same body without the commitment.
\<close>

definition post_body :: "json \<Rightarrow> json \<Rightarrow> json" where
  "post_body u c = JObj [(''user_name'', u), (''crypto_commitment'', c)]"

definition enroll_request :: "json \<Rightarrow> json \<Rightarrow> request" where
  "enroll_request u c = \<lparr>path = ''/enroll'', body = Inr (post_body u c)\<rparr>"

definition verify_request :: "json \<Rightarrow> json \<Rightarrow> request" where
  "verify_request u c = \<lparr>path = ''/verifyCommitment'', body = Inr (post_body u c)\<rparr>"

definition verify_request_no_commitment :: "json \<Rightarrow> request" where
  "verify_request_no_commitment u =
     \<lparr>path = ''/verifyCommitment'', body = Inr (JObj [(''user_name'', u)])\<rparr>"

text \<open>A field that is missing from the body (or null) or is the empty string.\<close>

definition missing_or_empty :: "json \<Rightarrow> bool" where
  "missing_or_empty j = (j = JNull \<or> j = JStr [])"

text \<open>
  Whether a body is a JSON object, and the field a body has under a key: the value of
  the key in an object, and none (null) in an object without the key and in a body that
  is no object.
\<close>

definition is_object :: "json \<Rightarrow> bool" where
  "is_object j = (case j of JObj kvs \<Rightarrow> True | _ \<Rightarrow> False)"

definition request_field :: "json \<Rightarrow> string \<Rightarrow> json" where
  "request_field j k = (case dict_get j k of Inr v \<Rightarrow> v | Inl x \<Rightarrow> JNull)"

text \<open>The five responses of the two POST endpoints.\<close>

definition Created :: outcome where
  "Created = Responded (json_response 201 ''message''
     ''Crypto commitment and username saved successfully!'')"

definition Conflict :: outcome where
  "Conflict = Responded (json_response 409 ''error'' ''User already exists'')"

definition BadRequest_enroll :: outcome where
  "BadRequest_enroll = Responded (json_response 400 ''error''
     ''Missing username or crypto commitment'')"

definition Authenticated :: outcome where
  "Authenticated = Responded (json_response 200 ''message'' ''Login Successful'')"

definition Unauthorized :: outcome where
  "Unauthorized = Responded (json_response 403 ''error'' ''Unauthorized'')"

subsection \<open>Stores and the stores the server can reach\<close>

definition records_of :: "store \<Rightarrow> string \<Rightarrow> row list" where
  "records_of s u = filter (\<lambda>r. user_name r = u) s"

definition one_record_per_user :: "store \<Rightarrow> bool" where
  "one_record_per_user s = distinct (map user_name s)"

definition no_empty_commitment :: "store \<Rightarrow> bool" where
  "no_empty_commitment s = ([] \<notin> set (map crypto_commitment s))"

text \<open>
  The stores reachable from the empty table by requests handled one after the other, as
  \<^verbatim>\<open>HTTPServer.serve_forever\<close> handles them.
\<close>

inductive reachable :: "store \<Rightarrow> bool" where
  empty: "reachable (init_db None)"
| post: "reachable s \<Longrightarrow> reachable (db (do_POST e s req))"
| get: "reachable s \<Longrightarrow> reachable (db (do_GET s p))"

subsection \<open>The scenario of the specification\<close>

text \<open>
  The values the examples below run on: readings for one request, and the table after
  \<^verbatim>\<open>alice\<close> has enrolled with the commitment \<^verbatim>\<open>AAA111\<close>.
\<close>

abbreviation readings :: env where
  "readings \<equiv> \<lparr>start_time = 0, end_time = 1, cpu_usage = 5, ram_usage = 40\<rparr>"

abbreviation alice_row :: row where
  "alice_row \<equiv> \<lparr>row_id = 1, user_name = ''alice'', crypto_commitment = ''AAA111''\<rparr>"

section \<open>Properties\<close>

subsection \<open>Unfolding the model\<close>

lemmas handler_defs =
  do_POST_def do_POST_enroll_def do_POST_verifyCommitment_def do_GET_def raised_def returned_def

lemmas request_defs =
  enroll_request_def verify_request_def verify_request_no_commitment_def post_body_def

lemmas outcome_defs =
  Created_def Conflict_def BadRequest_enroll_def Authenticated_def Unauthorized_def
  json_response_def

lemmas db_defs =
  user_exists_def verify_crypto_commitment_def save_crypto_commitment_def
  where_user_name_def fetchone_def py_value_def records_of_def

lemma show_nat_nonempty: "show_nat n \<noteq> []"
  by (subst show_nat.simps) simp

lemma show_int_nonempty: "show_int i \<noteq> []"
  by (simp add: show_int_def show_nat_nonempty)

text \<open>A value that passes the handler's \<^verbatim>\<open>not x\<close> test is never stored as the empty text.\<close>

lemma bind_text_truthy: "truthy c \<Longrightarrow> bind_text c = Inr (Some t) \<Longrightarrow> t \<noteq> []"
  by (cases c rule: bind_text.cases) (auto simp: show_int_nonempty split: if_splits)

lemma fetchone_None: "(fetchone xs = None) = (xs = [])"
  by (simp add: fetchone_def split: list.splits)

lemma filter_unique:
  "distinct (map user_name s) \<Longrightarrow> r \<in> set s \<Longrightarrow> filter (\<lambda>x. user_name x = user_name r) s = [r]"
proof (induction s)
  case Nil
  then show ?case by simp
next
  case (Cons a s)
  show ?case
  proof (cases "a = r")
    case True
    with Cons.prems have "user_name r \<notin> user_name ` set s" by simp
    then have "filter (\<lambda>x. user_name x = user_name r) s = []"
      by (auto simp: filter_empty_conv image_iff)
    with True show ?thesis by simp
  next
    case False
    with Cons.prems have "r \<in> set s" "user_name a \<noteq> user_name r" by (auto simp: image_iff)
    with Cons show ?thesis by simp
  qed
qed

subsection \<open>What the readings and the store can and cannot change\<close>

lemma verify_db: "db (do_POST_verifyCommitment e s req) = s"
  by (simp add: handler_defs split: option.splits sum.splits)

lemma verify_env:
  "outcome (do_POST_verifyCommitment e s req) = outcome (do_POST_verifyCommitment e' s req) \<and>
   calls (do_POST_verifyCommitment e s req) = calls (do_POST_verifyCommitment e' s req)"
  by (simp add: handler_defs split: option.splits sum.splits)

lemma enroll_env:
  "outcome (do_POST_enroll e s req) = outcome (do_POST_enroll e' s req) \<and>
   db (do_POST_enroll e s req) = db (do_POST_enroll e' s req) \<and>
   calls (do_POST_enroll e s req) = calls (do_POST_enroll e' s req)"
  by (simp add: handler_defs split: option.splits sum.splits)

lemma get_db: "db (do_GET s p) = s"
  by (simp add: do_GET_def)

text \<open>The readings do reach the log: two runs that differ in them log different lines.\<close>

lemma readings_reach_the_log:
  "logged (do_POST readings [] (enroll_request (JStr ''alice'') (JStr ''AAA111''))) \<noteq>
   logged (do_POST (readings\<lparr>end_time := 2\<rparr>) [] (enroll_request (JStr ''alice'') (JStr ''AAA111'')))"
  by (simp add: handler_defs request_defs db_defs request_log_def)

subsection \<open>Verification\<close>

text \<open>
  For a username with no record, a request that carries a commitment (any JSON value but
  null) is refused.
\<close>

lemma verify_unregistered_with_commitment:
  "records_of s u = [] \<Longrightarrow> u \<noteq> [] \<Longrightarrow> c \<noteq> JNull \<Longrightarrow>
   outcome (do_POST e s (verify_request (JStr u) c)) = Unauthorized"
  by (auto simp add: handler_defs request_defs outcome_defs db_defs)

text \<open>
  For a username with no record, a request without the field \<^verbatim>\<open>crypto_commitment\<close>, or
  with null there, is answered \<^verbatim>\<open>200 Login Successful\<close>: \<^verbatim>\<open>verify_crypto_commitment\<close>
  returns \<^verbatim>\<open>None\<close>, \<^verbatim>\<open>data.get\<close> returns \<^verbatim>\<open>None\<close>, and the handler compares the two.
\<close>

lemma verify_unregistered_without_commitment:
  "records_of s u = [] \<Longrightarrow> u \<noteq> [] \<Longrightarrow>
   outcome (do_POST e s (verify_request_no_commitment (JStr u))) = Authenticated \<and>
   outcome (do_POST e s (verify_request (JStr u) JNull)) = Authenticated"
  by (auto simp add: handler_defs request_defs outcome_defs db_defs)

text \<open>
  Where a table holds several rows for one username (requests handled one after the other
  never produce such a table), \<^verbatim>\<open>fetchone\<close> returns the first of them, and
  verification goes by it.
\<close>

lemma verify_goes_by_first_row:
  "u \<noteq> [] \<Longrightarrow> records_of s u = r # rs \<Longrightarrow>
   outcome (do_POST e s (verify_request (JStr u) c)) =
     (if c = JStr (crypto_commitment r) then Authenticated else Unauthorized)"
  by (auto simp add: handler_defs request_defs outcome_defs db_defs)

text \<open>
  C1 (the code at the failing input). The claim: for a username with no record,
  verification returns Unauthorized for every commitment, also when the field
  \<^verbatim>\<open>crypto_commitment\<close> is absent, and never Authenticated. On the empty table the
  request \<^verbatim>\<open>{"user_name": "bob"}\<close> is answered Authenticated, which is not Unauthorized.
\<close>

theorem verify_unknown_user_no_commitment_authenticated:
  "outcome (do_POST e [] (verify_request_no_commitment (JStr ''bob''))) = Authenticated \<and>
   Authenticated \<noteq> Unauthorized"
  by (simp add: handler_defs request_defs outcome_defs db_defs)

text \<open>
  C2. Let the store hold at most one record per username, among them a record for the
  non-empty username \<open>u\<close> with the commitment \<open>cs\<close>. Then verifying \<open>u\<close> with \<open>c\<close> is
  answered Authenticated if \<open>c\<close> is the string \<open>cs\<close>, character for character, and
  Unauthorized for every other \<open>c\<close>: another string, a JSON value that is no string, or no
  commitment at all.
\<close>

theorem verify_registered_authenticated_iff_equal:
  assumes "one_record_per_user s" and "r \<in> set s" and "user_name r = u"
    and "crypto_commitment r = cs" and "u \<noteq> []"
  shows "outcome (do_POST e s (verify_request (JStr u) c)) =
           (if c = JStr cs then Authenticated else Unauthorized) \<and>
         outcome (do_POST e s (verify_request_no_commitment (JStr u))) = Unauthorized \<and>
         Authenticated \<noteq> Unauthorized"
proof -
  from assms have "filter (\<lambda>x. user_name x = u) s = [r]"
    using filter_unique [of s r] by (simp add: one_record_per_user_def)
  with assms show ?thesis
    by (auto simp add: handler_defs request_defs outcome_defs db_defs)
qed

theorem verify_registered_authenticated_iff_equal_witness:
  "one_record_per_user [alice_row] \<and>
   outcome (do_POST readings [alice_row] (verify_request (JStr ''alice'') (JStr ''AAA111''))) = Authenticated \<and>
   outcome (do_POST readings [alice_row] (verify_request (JStr ''alice'') (JStr ''wrong''))) = Unauthorized \<and>
   outcome (do_POST readings [alice_row] (verify_request (JStr ''alice'') (JStr ''aaa111''))) = Unauthorized"
  using verify_registered_authenticated_iff_equal
      [of "[alice_row]" alice_row "''alice''" "''AAA111''" readings "JStr ''AAA111''"]
    verify_registered_authenticated_iff_equal
      [of "[alice_row]" alice_row "''alice''" "''AAA111''" readings "JStr ''wrong''"]
    verify_registered_authenticated_iff_equal
      [of "[alice_row]" alice_row "''alice''" "''AAA111''" readings "JStr ''aaa111''"]
  by (simp add: one_record_per_user_def)

subsection \<open>Enrollment\<close>

text \<open>
  The claim C6 as it is written fails at a body that is JSON but no object: the body
  \<^verbatim>\<open>[]\<close> has neither field, and \<^verbatim>\<open>data.get\<close> raises \<^verbatim>\<open>AttributeError\<close> on the list;
  nothing catches it, so no \<^verbatim>\<open>400\<close> is written.
\<close>

theorem enroll_non_object_body_not_bad_request:
  "outcome (do_POST readings [] \<lparr>path = ''/enroll'', body = Inr (JArr [])\<rparr>) = Raised AttributeError \<and>
   missing_or_empty (request_field (JArr []) ''user_name'')"
  by (simp add: handler_defs request_field_def missing_or_empty_def)

text \<open>
  C6 (amended). Take an enroll request whose body \<^verbatim>\<open>json.loads\<close> accepts and in which the
  username or the commitment is missing or empty. If the body is a JSON object, the
  answer is \<^verbatim>\<open>400\<close> with the error of the enroll endpoint. If it is any other JSON
  value (an array, a string, a number, null), the run ends in the uncaught
  \<^verbatim>\<open>AttributeError\<close> of \<^verbatim>\<open>data.get\<close> and writes no response. In both cases the store is
  as before and no database function has been called.
\<close>

theorem enroll_missing_field_bad_request_or_raise:
  assumes "path req = ''/enroll''" and "body req = Inr data"
    and "missing_or_empty (request_field data ''user_name'') \<or>
         missing_or_empty (request_field data ''crypto_commitment'')"
  shows "outcome (do_POST e s req) =
           (if is_object data then BadRequest_enroll else Raised AttributeError) \<and>
         db (do_POST e s req) = s \<and>
         calls (do_POST e s req) = []"
  using assms
  by (cases data)
    (auto simp add: handler_defs outcome_defs missing_or_empty_def is_object_def request_field_def)

theorem enroll_missing_field_bad_request_or_raise_witness:
  "missing_or_empty (request_field (JObj [(''user_name'', JStr ''carol'')]) ''crypto_commitment'') \<and>
   outcome (do_POST readings [alice_row]
     \<lparr>path = ''/enroll'', body = Inr (JObj [(''user_name'', JStr ''carol'')])\<rparr>) = BadRequest_enroll \<and>
   db (do_POST readings [alice_row]
     \<lparr>path = ''/enroll'', body = Inr (JObj [(''user_name'', JStr ''carol'')])\<rparr>) = [alice_row] \<and>
   calls (do_POST readings [alice_row]
     \<lparr>path = ''/enroll'', body = Inr (JObj [(''user_name'', JStr ''carol'')])\<rparr>) = [] \<and>
   outcome (do_POST readings [alice_row]
     \<lparr>path = ''/enroll'', body = Inr (JStr ''alice'')\<rparr>) = Raised AttributeError \<and>
   db (do_POST readings [alice_row]
     \<lparr>path = ''/enroll'', body = Inr (JStr ''alice'')\<rparr>) = [alice_row]"
  using enroll_missing_field_bad_request_or_raise
      [of "\<lparr>path = ''/enroll'', body = Inr (JObj [(''user_name'', JStr ''carol'')])\<rparr>"
          "JObj [(''user_name'', JStr ''carol'')]" readings "[alice_row]"]
    enroll_missing_field_bad_request_or_raise
      [of "\<lparr>path = ''/enroll'', body = Inr (JStr ''alice'')\<rparr>" "JStr ''alice''"
          readings "[alice_row]"]
  by (simp add: missing_or_empty_def request_field_def is_object_def)

text \<open>
  The claim C4 as it is written fails at the empty commitment: with a record for
  \<^verbatim>\<open>alice\<close> in the store, enrolling \<^verbatim>\<open>alice\<close> with \<^verbatim>\<open>""\<close> is answered
  \<^verbatim>\<open>400\<close>, not \<^verbatim>\<open>409\<close>, since the handler tests the fields before it looks at the store.
\<close>

theorem enroll_existing_empty_commitment_not_conflict:
  "outcome (do_POST readings [alice_row] (enroll_request (JStr ''alice'') (JStr []))) = BadRequest_enroll \<and>
   BadRequest_enroll \<noteq> Conflict"
  by (simp add: handler_defs request_defs outcome_defs)

text \<open>
  C4 (amended). When the store holds a record for the non-empty username \<open>u\<close>, enrolling
  \<open>u\<close> with a commitment \<open>c\<close> is answered Conflict for every non-empty \<open>c\<close> (every \<open>c\<close>
  that Python takes as true) and BadRequest for a missing or empty one; in both cases the
  store afterwards is the store before, so no stored commitment is overwritten.
\<close>

theorem enroll_existing_user_conflict_store_unchanged:
  assumes "records_of s u \<noteq> []" and "u \<noteq> []"
  shows "outcome (do_POST e s (enroll_request (JStr u) c)) =
           (if truthy c then Conflict else BadRequest_enroll) \<and>
         db (do_POST e s (enroll_request (JStr u) c)) = s"
  using assms
  by (auto simp add: handler_defs request_defs outcome_defs db_defs split: list.splits)

theorem enroll_existing_user_conflict_store_unchanged_witness:
  "records_of [alice_row] ''alice'' \<noteq> [] \<and>
   outcome (do_POST readings [alice_row] (enroll_request (JStr ''alice'') (JStr ''BBB222''))) = Conflict \<and>
   db (do_POST readings [alice_row] (enroll_request (JStr ''alice'') (JStr ''BBB222''))) = [alice_row]"
  using enroll_existing_user_conflict_store_unchanged
      [of "[alice_row]" "''alice''" readings "JStr ''BBB222''"]
  by (simp add: records_of_def)

subsection \<open>Two enrollments of one username\<close>




subsection \<open>The stores the server reaches\<close>

text \<open>A run of the enroll branch leaves the store as it was or appends one row.\<close>

lemma enroll_db_cases:
  "db (do_POST_enroll e s req) = s \<or>
   (\<exists>tu tc. tc \<noteq> [] \<and> records_of s tu = [] \<and>
      db (do_POST_enroll e s req) =
        s @ [\<lparr>row_id = next_row_id s, user_name = tu, crypto_commitment = tc\<rparr>])"
  by (auto simp add: do_POST_enroll_def raised_def returned_def user_exists_def
        save_crypto_commitment_def where_user_name_def records_of_def fetchone_None
      split: option.splits sum.splits dest: bind_text_truthy)

lemma post_db_cases:
  "db (do_POST e s req) = s \<or>
   (\<exists>tu tc. tc \<noteq> [] \<and> records_of s tu = [] \<and>
      db (do_POST e s req) =
        s @ [\<lparr>row_id = next_row_id s, user_name = tu, crypto_commitment = tc\<rparr>])"
  using enroll_db_cases [of e s req] by (simp add: do_POST_def verify_db)

lemma invariant_append:
  assumes "one_record_per_user s \<and> no_empty_commitment s"
    and "tc \<noteq> []" and "records_of s tu = []"
  shows "one_record_per_user (s @ [\<lparr>row_id = i, user_name = tu, crypto_commitment = tc\<rparr>]) \<and>
         no_empty_commitment (s @ [\<lparr>row_id = i, user_name = tu, crypto_commitment = tc\<rparr>])"
  using assms
  by (auto simp add: one_record_per_user_def no_empty_commitment_def records_of_def
        filter_empty_conv)

text \<open>
  C5. Every store reached from the empty table by requests handled one after the other
  (enroll and verify requests among them, with any bodies) holds at most one record per
  username, and no record with an empty commitment.
\<close>

theorem reachable_store_invariant:
  "reachable s \<Longrightarrow> one_record_per_user s \<and> no_empty_commitment s"
proof (induction rule: reachable.induct)
  case empty
  show ?case by (simp add: init_db_def one_record_per_user_def no_empty_commitment_def)
next
  case (post s e req)
  from post_db_cases [of e s req] show ?case
  proof
    assume "db (do_POST e s req) = s"
    with post.IH show ?thesis by simp
  next
    assume "\<exists>tu tc. tc \<noteq> [] \<and> records_of s tu = [] \<and>
      db (do_POST e s req) =
        s @ [\<lparr>row_id = next_row_id s, user_name = tu, crypto_commitment = tc\<rparr>]"
    then obtain tu tc where "tc \<noteq> []" and "records_of s tu = []"
      and "db (do_POST e s req) =
        s @ [\<lparr>row_id = next_row_id s, user_name = tu, crypto_commitment = tc\<rparr>]"
      by blast
    with post.IH invariant_append [of s tc tu "next_row_id s"] show ?thesis by simp
  qed
next
  case (get s p)
  then show ?case by (simp add: get_db)
qed

theorem reachable_store_invariant_witness:
  "reachable [alice_row] \<and> one_record_per_user [alice_row] \<and> no_empty_commitment [alice_row]"
proof -
  have "db (do_POST readings [] (enroll_request (JStr ''alice'') (JStr ''AAA111''))) = [alice_row]"
    by (simp add: handler_defs request_defs db_defs next_row_id_def)
  with reachable.post [OF reachable.empty, of readings "enroll_request (JStr ''alice'') (JStr ''AAA111'')"]
  have r: "reachable [alice_row]" by (simp add: init_db_def)
  from r reachable_store_invariant [OF r] show ?thesis by simp
qed

subsection \<open>Verification reads only\<close>

lemma verify_requests_keep_the_store:
  "list_all (\<lambda>q. path (snd q) = ''/verifyCommitment'') qs \<Longrightarrow>
   fold (\<lambda>q t. db (do_POST (fst q) t (snd q))) qs s = s"
  by (induction qs) (simp_all add: do_POST_def verify_db)

text \<open>
  C7. A verify request leaves the store as it was. And after any number of verify
  requests (of this or of other users and commitments, under any readings) have been
  handled in between, the same verify request gets the answer it got the first time.
\<close>

theorem verify_does_not_mutate_and_repeats:
  assumes "path req = ''/verifyCommitment''"
    and "list_all (\<lambda>q. path (snd q) = ''/verifyCommitment'') qs"
  shows "db (do_POST e s req) = s \<and>
         outcome (do_POST e' (fold (\<lambda>q t. db (do_POST (fst q) t (snd q))) qs s) req) =
           outcome (do_POST e s req)"
  using assms verify_env [of e' s req e]
  by (simp add: verify_requests_keep_the_store) (simp add: do_POST_def verify_db)

theorem verify_does_not_mutate_and_repeats_witness:
  "db (do_POST readings [alice_row] (verify_request (JStr ''alice'') (JStr ''AAA111''))) = [alice_row] \<and>
   outcome (do_POST (readings\<lparr>start_time := 7\<rparr>)
      (fold (\<lambda>q t. db (do_POST (fst q) t (snd q)))
         [(readings, verify_request (JStr ''bob'') (JStr ''anything'')),
          (readings, verify_request (JStr ''alice'') (JStr ''wrong''))] [alice_row])
      (verify_request (JStr ''alice'') (JStr ''AAA111''))) =
     outcome (do_POST readings [alice_row] (verify_request (JStr ''alice'') (JStr ''AAA111'')))"
  using verify_does_not_mutate_and_repeats
      [of "verify_request (JStr ''alice'') (JStr ''AAA111'')"
          "[(readings, verify_request (JStr ''bob'') (JStr ''anything'')),
            (readings, verify_request (JStr ''alice'') (JStr ''wrong''))]"
          readings "[alice_row]" "readings\<lparr>start_time := 7\<rparr>"]
  by (simp add: verify_request_def)

subsection \<open>Bodies that are not JSON, and other paths\<close>

text \<open>
  The claim C8 as it is written fails twice. On a body on which \<^verbatim>\<open>json.loads\<close> raises,
  the run is left by that \<^verbatim>\<open>JSONDecodeError\<close>, which nothing catches, so no response is
  written, structured or not. And \<^verbatim>\<open>json.loads\<close> accepts text that is not JSON: the body
  \<^verbatim>\<open>{"user_name": "bob", "crypto_commitment": Infinity}\<close> is parsed, passes the test of
  the two fields, and is stored and answered \<^verbatim>\<open>201\<close>.
\<close>

theorem malformed_body_not_rejected_with_error_response:
  "outcome (do_POST readings [] \<lparr>path = ''/enroll'', body = Inl JSONDecodeError\<rparr>) =
     Raised JSONDecodeError \<and>
   outcome (do_POST readings [] \<lparr>path = ''/verifyCommitment'', body = Inl JSONDecodeError\<rparr>) =
     Raised JSONDecodeError \<and>
   outcome (do_POST readings []
      (enroll_request (JStr ''bob'') (JFloat (Number False CHR ''I'' ''nf'')))) = Created \<and>
   db (do_POST readings []
      (enroll_request (JStr ''bob'') (JFloat (Number False CHR ''I'' ''nf'')))) =
     [\<lparr>row_id = 1, user_name = ''bob'', crypto_commitment = ''Inf''\<rparr>]"
  by (simp add: handler_defs request_defs outcome_defs db_defs next_row_id_def)

text \<open>
  C8 (amended). A request to \<^verbatim>\<open>/enroll\<close> or \<^verbatim>\<open>/verifyCommitment\<close> on whose body
  \<^verbatim>\<open>json.loads\<close> raises (or the reading and decoding before it) ends in that uncaught
  exception: the handler writes no response, calls no database function, leaves the
  store as it was and logs nothing. A body that \<^verbatim>\<open>json.loads\<close> accepts, JSON or not, is
  handled as the value it returns.
\<close>

theorem unparsed_body_raises_before_store:
  assumes "path req = ''/enroll'' \<or> path req = ''/verifyCommitment''" and "body req = Inl x"
  shows "do_POST e s req = \<lparr>outcome = Raised x, db = s, calls = [], logged = []\<rparr>"
  using assms by (auto simp add: handler_defs)

theorem unparsed_body_raises_before_store_witness:
  "do_POST readings [alice_row] \<lparr>path = ''/verifyCommitment'', body = Inl JSONDecodeError\<rparr> =
     \<lparr>outcome = Raised JSONDecodeError, db = [alice_row], calls = [], logged = []\<rparr>"
  using unparsed_body_raises_before_store
      [of "\<lparr>path = ''/verifyCommitment'', body = Inl JSONDecodeError\<rparr>" JSONDecodeError
          readings "[alice_row]"]
  by simp

text \<open>
  C9. For a fixed store and a fixed POST request, the response (or its absence, or the
  exception), the store afterwards and the database calls are the same whatever the
  clock and the resource meters read: nothing that varies between two runs reaches the
  status code or the response body.
\<close>

theorem do_POST_response_independent_of_readings:
  "outcome (do_POST e1 s req) = outcome (do_POST e2 s req) \<and>
   db (do_POST e1 s req) = db (do_POST e2 s req) \<and>
   calls (do_POST e1 s req) = calls (do_POST e2 s req)"
  using enroll_env [of e1 s req e2] verify_env [of e1 s req e2]
  by (simp add: do_POST_def verify_db)

theorem do_POST_response_independent_of_readings_witness:
  "outcome (do_POST readings [alice_row] (verify_request (JStr ''alice'') (JStr ''AAA111''))) =
   outcome (do_POST (readings\<lparr>end_time := 2, cpu_usage := 99\<rparr>) [alice_row]
      (verify_request (JStr ''alice'') (JStr ''AAA111'')))"
  using do_POST_response_independent_of_readings
      [of readings "[alice_row]" "verify_request (JStr ''alice'') (JStr ''AAA111'')"
          "readings\<lparr>end_time := 2, cpu_usage := 99\<rparr>"]
  by simp

text \<open>
  C10. A POST request whose path is neither \<^verbatim>\<open>/enroll\<close> nor \<^verbatim>\<open>/verifyCommitment\<close>,
  and a GET request whose path is not \<^verbatim>\<open>/\<close>, get no response: the handler writes no
  status code and no body, calls no database function, and leaves the store as it was.
\<close>

theorem other_paths_write_nothing:
  assumes "path req \<noteq> ''/enroll''" and "path req \<noteq> ''/verifyCommitment''"
    and "p \<noteq> ''/''"
  shows "outcome (do_POST e s req) = NoResponse \<and> db (do_POST e s req) = s \<and>
         calls (do_POST e s req) = [] \<and>
         outcome (do_GET s p) = NoResponse \<and> db (do_GET s p) = s \<and>
         calls (do_GET s p) = []"
  using assms by (simp add: do_POST_def do_GET_def)

theorem other_paths_write_nothing_witness:
  "outcome (do_POST readings [alice_row] ((enroll_request (JStr ''bob'') (JStr ''x''))\<lparr>path := ''/enrol''\<rparr>)) = NoResponse \<and>
   db (do_POST readings [alice_row] ((enroll_request (JStr ''bob'') (JStr ''x''))\<lparr>path := ''/enrol''\<rparr>)) = [alice_row] \<and>
   calls (do_POST readings [alice_row] ((enroll_request (JStr ''bob'') (JStr ''x''))\<lparr>path := ''/enrol''\<rparr>)) = [] \<and>
   outcome (do_GET [alice_row] ''/status'') = NoResponse \<and>
   db (do_GET [alice_row] ''/status'') = [alice_row] \<and>
   calls (do_GET [alice_row] ''/status'') = []"
  using other_paths_write_nothing
      [of "(enroll_request (JStr ''bob'') (JStr ''x''))\<lparr>path := ''/enrol''\<rparr>" "''/status''"
          readings "[alice_row]"]
  by simp

end
